theory Spec2Isabelle
  imports Complex_Main "HOL-Library.Multiset" "HOL-Library.Log_Nat"
begin

section \<open>The JavaScript operations the server relies on\<close>

subsection \<open>Numbers\<close>

text \<open>
  A JavaScript number is \<open>NaN\<close>, one of the two infinities, or a finite value. Finite
  values are modelled as exact reals: the rounding of IEEE-754 doubles and the sign of
  zero are abstracted away. The sign of zero is observable only through a division by
  zero, and every division of \<^verbatim>\<open>server.js\<close> has a divisor that is a positive count or is
  guarded by \<^verbatim>\<open>attempted > 0\<close>.
\<close>

datatype jsnum = NaN | Num real | PInf | NInf

fun js_neg :: "jsnum \<Rightarrow> jsnum" where
  "js_neg NaN = NaN"
| "js_neg (Num a) = Num (- a)"
| "js_neg PInf = NInf"
| "js_neg NInf = PInf"

text \<open>The operator \<^verbatim>\<open>+\<close> on two numbers.\<close>

fun js_add :: "jsnum \<Rightarrow> jsnum \<Rightarrow> jsnum" where
  "js_add (Num a) (Num b) = Num (a + b)"
| "js_add NaN _ = NaN"
| "js_add _ NaN = NaN"
| "js_add PInf NInf = NaN"
| "js_add NInf PInf = NaN"
| "js_add PInf _ = PInf"
| "js_add _ PInf = PInf"
| "js_add NInf _ = NInf"
| "js_add _ NInf = NInf"

definition js_sub :: "jsnum \<Rightarrow> jsnum \<Rightarrow> jsnum" where
  "js_sub a b = js_add a (js_neg b)"

fun js_mul :: "jsnum \<Rightarrow> jsnum \<Rightarrow> jsnum" where
  "js_mul (Num a) (Num b) = Num (a * b)"
| "js_mul NaN _ = NaN"
| "js_mul _ NaN = NaN"
| "js_mul (Num a) PInf = (if a = 0 then NaN else if 0 < a then PInf else NInf)"
| "js_mul (Num a) NInf = (if a = 0 then NaN else if 0 < a then NInf else PInf)"
| "js_mul PInf (Num b) = (if b = 0 then NaN else if 0 < b then PInf else NInf)"
| "js_mul NInf (Num b) = (if b = 0 then NaN else if 0 < b then NInf else PInf)"
| "js_mul PInf PInf = PInf"
| "js_mul PInf NInf = NInf"
| "js_mul NInf PInf = NInf"
| "js_mul NInf NInf = PInf"

text \<open>The operator \<^verbatim>\<open>/\<close>; a zero divisor is read as \<open>+0\<close>.\<close>

fun js_div :: "jsnum \<Rightarrow> jsnum \<Rightarrow> jsnum" where
  "js_div (Num a) (Num b) =
     (if b = 0 then (if a = 0 then NaN else if 0 < a then PInf else NInf)
      else Num (a / b))"
| "js_div NaN _ = NaN"
| "js_div _ NaN = NaN"
| "js_div (Num a) PInf = Num 0"
| "js_div (Num a) NInf = Num 0"
| "js_div PInf (Num b) = (if 0 \<le> b then PInf else NInf)"
| "js_div NInf (Num b) = (if 0 \<le> b then NInf else PInf)"
| "js_div PInf PInf = NaN"
| "js_div PInf NInf = NaN"
| "js_div NInf PInf = NaN"
| "js_div NInf NInf = NaN"

text \<open>The comparison \<^verbatim>\<open><\<close> on two numbers: false as soon as one side is \<open>NaN\<close>.\<close>

fun js_lt :: "jsnum \<Rightarrow> jsnum \<Rightarrow> bool" where
  "js_lt (Num a) (Num b) = (a < b)"
| "js_lt NaN _ = False"
| "js_lt _ NaN = False"
| "js_lt PInf _ = False"
| "js_lt _ NInf = False"
| "js_lt NInf _ = True"
| "js_lt _ PInf = True"

definition js_gt :: "jsnum \<Rightarrow> jsnum \<Rightarrow> bool" where
  "js_gt a b = js_lt b a"

text \<open>\<^verbatim>\<open>Math.round\<close> rounds to the nearest integer, a half upwards.\<close>

fun Math_round :: "jsnum \<Rightarrow> jsnum" where
  "Math_round (Num a) = Num (of_int \<lfloor>a + 1 / 2\<rfloor>)"
| "Math_round NaN = NaN"
| "Math_round PInf = PInf"
| "Math_round NInf = NInf"

text \<open>\<^verbatim>\<open>Math.max\<close> of two numbers: \<open>NaN\<close> as soon as one of them is.\<close>

fun Math_max :: "jsnum \<Rightarrow> jsnum \<Rightarrow> jsnum" where
  "Math_max NaN _ = NaN"
| "Math_max _ NaN = NaN"
| "Math_max a b = (if js_lt a b then b else a)"



text \<open>
  A number is finite when it is neither \<open>NaN\<close> nor an infinity. A sum of squares that
  is not finite is \<open>NaN\<close> or \<open>+Infinity\<close>.
\<close>

definition finite_num :: "jsnum \<Rightarrow> bool" where
  "finite_num n = (case n of Num _ \<Rightarrow> True | _ \<Rightarrow> False)"


subsection \<open>Strings read as numbers\<close>

text \<open>
  A string is a list of code units below 256. The white space of ECMAScript in that
  range is TAB, LF, VT, FF, CR, SP and NBSP.
\<close>

definition is_whitespace :: "char \<Rightarrow> bool" where
  "is_whitespace c = (of_char c \<in> {9, 10, 11, 12, 13, 32, 160 :: nat})"

definition digit_of :: "char \<Rightarrow> nat option" where
  "digit_of c =
     (let n = of_char c :: nat
      in if 48 \<le> n \<and> n \<le> 57 then Some (n - 48)
         else if 97 \<le> n \<and> n \<le> 122 then Some (n - 87)
         else if 65 \<le> n \<and> n \<le> 90 then Some (n - 55)
         else None)"

definition is_digit :: "nat \<Rightarrow> char \<Rightarrow> bool" where
  "is_digit radix c = (case digit_of c of None \<Rightarrow> False | Some d \<Rightarrow> d < radix)"

definition digits_value :: "nat \<Rightarrow> string \<Rightarrow> nat" where
  "digits_value radix ds =
     foldl (\<lambda>acc c. acc * radix + (case digit_of c of None \<Rightarrow> 0 | Some d \<Rightarrow> d)) 0 ds"

text \<open>
  \<^verbatim>\<open>parseInt(string)\<close> with no radix: leading white space is skipped, a sign is read,
  the prefix \<^verbatim>\<open>0x\<close> selects radix 16, and the longest run of digits is the value; no
  digit at all gives \<open>NaN\<close>.
\<close>

definition parseInt_string :: "string \<Rightarrow> jsnum" where
  "parseInt_string s =
     (let s1 = dropWhile is_whitespace s;
          negative = (case s1 of [] \<Rightarrow> False | c # _ \<Rightarrow> c = CHR ''-'');
          s2 = (case s1 of [] \<Rightarrow> s1
                | c # r \<Rightarrow> if c = CHR ''-'' \<or> c = CHR ''+'' then r else s1);
          hex = (case s2 of c # x # _ \<Rightarrow> c = CHR ''0'' \<and> (x = CHR ''x'' \<or> x = CHR ''X'')
                 | _ \<Rightarrow> False);
          radix = (if hex then 16 else 10);
          s3 = (if hex then drop 2 s2 else s2);
          z = takeWhile (is_digit radix) s3
      in if z = [] then NaN
         else if negative then Num (- real (digits_value radix z))
         else Num (real (digits_value radix z)))"

text \<open>
  \<^verbatim>\<open>parseInt(number)\<close> parses the decimal text of the number. Between \<open>10\<^sup>-\<^sup>6\<close> and
  \<open>10\<^sup>2\<^sup>1\<close> that text is positional and the result is the number truncated towards
  zero; outside it is in exponent notation, of which only the leading digit is read.
  \<open>leading_digit x\<close> is the first significant decimal digit of a positive \<open>x\<close>.
\<close>

definition leading_digit :: "real \<Rightarrow> nat" where
  "leading_digit x =
     (if 1 \<le> x then nat \<lfloor>x\<rfloor> div 10 ^ (floorlog 10 (nat \<lfloor>x\<rfloor>) - 1)
      else nat \<lfloor>x * 10 ^ floorlog 10 (nat \<lceil>1 / x\<rceil> - 1)\<rfloor>)"

definition parseInt_number :: "jsnum \<Rightarrow> jsnum" where
  "parseInt_number n =
     (case n of
        Num x \<Rightarrow>
          if x = 0 \<or> (1 / 10 ^ 6 \<le> \<bar>x\<bar> \<and> \<bar>x\<bar> < 10 ^ 21)
          then Num (of_int (if x < 0 then \<lceil>x\<rceil> else \<lfloor>x\<rfloor>))
          else Num (sgn x * real (leading_digit \<bar>x\<bar>))
      | _ \<Rightarrow> NaN)"

text \<open>
  \<^verbatim>\<open>ToNumber\<close> of a string: the whole trimmed string must be a numeric literal; the
  empty string is 0.
\<close>

definition trim :: "string \<Rightarrow> string" where
  "trim s = rev (dropWhile is_whitespace (rev (dropWhile is_whitespace s)))"

definition StrExponent :: "real \<Rightarrow> string \<Rightarrow> jsnum" where
  "StrExponent mant r =
     (let negative = (case r of [] \<Rightarrow> False | c # _ \<Rightarrow> c = CHR ''-'');
          ds = (case r of [] \<Rightarrow> r
                | c # r' \<Rightarrow> if c = CHR ''-'' \<or> c = CHR ''+'' then r' else r)
      in if ds = [] \<or> \<not> list_all (is_digit 10) ds then NaN
         else if negative then Num (mant / 10 ^ digits_value 10 ds)
         else Num (mant * 10 ^ digits_value 10 ds))"

definition StrUnsignedDecimalLiteral :: "string \<Rightarrow> jsnum" where
  "StrUnsignedDecimalLiteral u =
     (if u = ''Infinity'' then PInf
      else
        let ip = takeWhile (is_digit 10) u;
            r1 = dropWhile (is_digit 10) u;
            dot = (case r1 of [] \<Rightarrow> False | c # _ \<Rightarrow> c = CHR ''.'');
            fp = (if dot then takeWhile (is_digit 10) (tl r1) else []);
            r2 = (if dot then dropWhile (is_digit 10) (tl r1) else r1);
            mant = real (digits_value 10 ip) + real (digits_value 10 fp) / 10 ^ length fp
        in if ip = [] \<and> fp = [] then NaN
           else (case r2 of [] \<Rightarrow> Num mant
                 | c # r3 \<Rightarrow> if c = CHR ''e'' \<or> c = CHR ''E'' then StrExponent mant r3
                             else NaN))"

definition StrNonDecimal :: "nat \<Rightarrow> string \<Rightarrow> jsnum" where
  "StrNonDecimal radix ds =
     (if ds = [] \<or> \<not> list_all (is_digit radix) ds then NaN
      else Num (real (digits_value radix ds)))"

definition StringToNumber :: "string \<Rightarrow> jsnum" where
  "StringToNumber s =
     (let t = trim s
      in case t of
           [] \<Rightarrow> Num 0
         | c # r \<Rightarrow>
             if c = CHR ''0'' \<and> r \<noteq> [] \<and> (hd r = CHR ''x'' \<or> hd r = CHR ''X'')
               then StrNonDecimal 16 (tl r)
             else if c = CHR ''0'' \<and> r \<noteq> [] \<and> (hd r = CHR ''o'' \<or> hd r = CHR ''O'')
               then StrNonDecimal 8 (tl r)
             else if c = CHR ''0'' \<and> r \<noteq> [] \<and> (hd r = CHR ''b'' \<or> hd r = CHR ''B'')
               then StrNonDecimal 2 (tl r)
             else if c = CHR ''+'' then StrUnsignedDecimalLiteral r
             else if c = CHR ''-'' then js_neg (StrUnsignedDecimalLiteral r)
             else StrUnsignedDecimalLiteral t)"

subsection \<open>Values of a JSON request body\<close>

text \<open>
  A field of a parsed JSON body is absent (\<^verbatim>\<open>undefined\<close>), \<^verbatim>\<open>null\<close>, a boolean, a
  number or a string. Arrays and nested objects as field values are not modelled.
\<close>

datatype jsval = JUndefined | JNull | JBool bool | JNumber jsnum | JString string

text \<open>What \<^verbatim>\<open>!v\<close> negates: the truthiness of a value.\<close>

fun truthy :: "jsval \<Rightarrow> bool" where
  "truthy JUndefined = False"
| "truthy JNull = False"
| "truthy (JBool b) = b"
| "truthy (JNumber n) = (n \<noteq> NaN \<and> n \<noteq> Num 0)"
| "truthy (JString s) = (s \<noteq> [])"

fun ToNumber :: "jsval \<Rightarrow> jsnum" where
  "ToNumber JUndefined = NaN"
| "ToNumber JNull = Num 0"
| "ToNumber (JBool b) = (if b then Num 1 else Num 0)"
| "ToNumber (JNumber n) = n"
| "ToNumber (JString s) = StringToNumber s"

text \<open>
  \<^verbatim>\<open>parseInt(v)\<close> first turns \<open>v\<close> into a string; the strings \<^verbatim>\<open>undefined\<close>, \<^verbatim>\<open>null\<close>,
  \<^verbatim>\<open>true\<close>, \<^verbatim>\<open>false\<close>, \<^verbatim>\<open>NaN\<close> and \<^verbatim>\<open>Infinity\<close> hold no digit.
\<close>

fun parseInt :: "jsval \<Rightarrow> jsnum" where
  "parseInt JUndefined = NaN"
| "parseInt JNull = NaN"
| "parseInt (JBool b) = NaN"
| "parseInt (JNumber n) = parseInt_number n"
| "parseInt (JString s) = parseInt_string s"

text \<open>\<^verbatim>\<open>n || d\<close> on a number \<open>n\<close>: \<open>d\<close> replaces the falsy numbers \<open>NaN\<close> and 0.\<close>

definition js_or :: "jsnum \<Rightarrow> jsnum \<Rightarrow> jsnum" where
  "js_or n d = (if n = NaN \<or> n = Num 0 then d else n)"

subsection \<open>Arrays and strings\<close>

text \<open>
  \<^verbatim>\<open>Array.prototype.slice(start, stop)\<close>: a negative index counts from the end, both
  are clamped to the array, and a missing \<open>stop\<close> is the length.
\<close>

definition js_slice :: "int \<Rightarrow> int option \<Rightarrow> 'a list \<Rightarrow> 'a list" where
  "js_slice start stop xs =
     (let len = int (length xs);
          k = (if start < 0 then max (len + start) 0 else min start len);
          e = (case stop of None \<Rightarrow> len | Some e' \<Rightarrow> e');
          final = (if e < 0 then max (len + e) 0 else min e len)
      in take (nat (final - k)) (drop (nat k) xs))"

text \<open>
  \<^verbatim>\<open>Array.prototype.sort(cmp)\<close> is stable. \<open>cmp a b\<close> above 0 puts \<open>b\<close> first; any other
  result keeps \<open>a\<close> first, a \<open>NaN\<close> counting as 0. With a consistent comparator the
  outcome is fixed by ECMAScript and is the one this insertion sort computes. With an
  inconsistent one (a \<open>NaN\<close> result) the order depends on the algorithm of the engine;
  an element whose every comparison is \<open>NaN\<close> is left where it is by this sort, as it is
  by the run detection and the binary insertion of V8.
\<close>

fun insert_cmp :: "('a \<Rightarrow> 'a \<Rightarrow> jsnum) \<Rightarrow> 'a \<Rightarrow> 'a list \<Rightarrow> 'a list" where
  "insert_cmp cmp a [] = [a]"
| "insert_cmp cmp a (b # bs) =
     (if js_gt (cmp a b) (Num 0) then b # insert_cmp cmp a bs else a # b # bs)"

definition js_sort :: "('a \<Rightarrow> 'a \<Rightarrow> jsnum) \<Rightarrow> 'a list \<Rightarrow> 'a list" where
  "js_sort cmp xs = foldr (insert_cmp cmp) xs []"

text \<open>\<^verbatim>\<open>String.prototype.split(c)\<close> for a separator of one character.\<close>

fun split_on :: "char \<Rightarrow> string \<Rightarrow> string list" where
  "split_on c [] = [[]]"
| "split_on c (x # xs) =
     (if x = c then [] # split_on c xs
      else (case split_on c xs of [] \<Rightarrow> [[x]] | w # ws \<Rightarrow> (x # w) # ws))"

text \<open>\<^verbatim>\<open>Number.prototype.toString\<close> on an integer: its decimal digits.\<close>

fun digits_of_nat :: "nat \<Rightarrow> string" where
  "digits_of_nat n =
     (if n < 10 then [''0123456789'' ! n]
      else digits_of_nat (n div 10) @ [''0123456789'' ! (n mod 10)])"

declare digits_of_nat.simps [simp del]

definition int_toString :: "int \<Rightarrow> string" where
  "int_toString i = (if i < 0 then CHR ''-'' # digits_of_nat (nat (- i)) else digits_of_nat (nat i))"

section \<open>The data of the server\<close>

text \<open>
  A test as \<^verbatim>\<open>POST /api/mock-test\<close> records it. \<open>testName\<close> is stored as submitted;
  the score and the three counts are results of \<^verbatim>\<open>parseInt\<close>; a date is the milliseconds since the
  epoch.
\<close>

record test =
  id_test :: string
  testName :: jsval
  score :: jsnum
  attempted :: jsnum
  correct :: jsnum
  incorrect :: jsnum
  date :: int
  accuracy :: jsnum

text \<open>An entry of the global array \<^verbatim>\<open>mockTests\<close>: the test and three fields of its user.\<close>

record ledger_entry = test +
  userId :: string
  userEmail :: string
  userName :: string

record user =
  id_user :: string
  googleId :: string
  email :: string
  name :: string
  avatar :: string
  "role" :: string
  mockTests :: "test list"
  totalTests :: nat
  averageScore :: jsnum
  bestScore :: jsnum
  joinedDate :: int
  lastLogin :: int

text \<open>The two module variables \<^verbatim>\<open>users\<close> and \<^verbatim>\<open>mockTests\<close>.\<close>

record state =
  users :: "user list"
  mockTests_all :: "ledger_entry list"

text \<open>
  A response is \<^verbatim>\<open>res.json(body)\<close> with status 200, or
  \<^verbatim>\<open>res.status(code).json({error: message})\<close>.
\<close>

datatype 'a response = Json200 'a | JsonError nat string

fun status :: "'a response \<Rightarrow> nat" where
  "status (Json200 _) = 200"
| "status (JsonError code _) = code"

text \<open>The own properties of a user object, in the order of their creation.\<close>

datatype field = FString string | FNumber jsnum | FDate int | FTests "test list"

definition properties :: "user \<Rightarrow> (string \<times> field) list" where
  "properties u =
     [(''id'', FString (id_user u)),
      (''googleId'', FString (googleId u)),
      (''email'', FString (email u)),
      (''name'', FString (name u)),
      (''avatar'', FString (avatar u)),
      (''role'', FString (role u)),
      (''mockTests'', FTests (mockTests u)),
      (''totalTests'', FNumber (Num (real (totalTests u)))),
      (''averageScore'', FNumber (averageScore u)),
      (''bestScore'', FNumber (bestScore u)),
      (''joinedDate'', FDate (joinedDate u)),
      (''lastLogin'', FDate (lastLogin u))]"

text \<open>The rest pattern \<^verbatim>\<open>const { k, ...rest } = object\<close>.\<close>

definition rest_without :: "string \<Rightarrow> (string \<times> field) list \<Rightarrow> (string \<times> field) list" where
  "rest_without k ps = filter (\<lambda>p. fst p \<noteq> k) ps"

text \<open>
  \<^verbatim>\<open>users.find(p)\<close> returns the first user that satisfies \<open>p\<close>; an assignment to a field
  of the object found changes that element of the array and no other.
\<close>

fun update_first :: "('a \<Rightarrow> bool) \<Rightarrow> ('a \<Rightarrow> 'a) \<Rightarrow> 'a list \<Rightarrow> 'a list" where
  "update_first p f [] = []"
| "update_first p f (x # xs) = (if p x then f x # xs else x # update_first p f xs)"

section \<open>Sign-in and bearer tokens\<close>

text \<open>
  The verify callback of the Google strategy. Reading \<^verbatim>\<open>profile.emails[0].value\<close> or
  \<^verbatim>\<open>profile.photos[0].value\<close> of a profile that has none throws; the \<^verbatim>\<open>catch\<close> block
  then reports the error and \<^verbatim>\<open>users\<close> is as before. The clock is read once per call.
\<close>

record profile =
  id_profile :: string
  emails :: "string list"
  displayName :: string
  photos :: "string list"

definition google_strategy :: "profile \<Rightarrow> int \<Rightarrow> state \<Rightarrow> (string + user) \<times> state" where
  "google_strategy profile now s =
     (case find (\<lambda>u. googleId u = id_profile profile) (users s) of
        None \<Rightarrow>
          (case (emails profile, photos profile) of
             (e # _, a # _) \<Rightarrow>
               (let user = \<lparr>id_user = int_toString now, googleId = id_profile profile,
                            email = e, name = displayName profile, avatar = a,
                            role = ''student'', mockTests = [], totalTests = 0,
                            averageScore = Num 0, bestScore = Num 0,
                            joinedDate = now, lastLogin = now\<rparr>
                in (Inr user, s\<lparr>users := users s @ [user]\<rparr>))
           | _ \<Rightarrow> (Inl ''TypeError'', s))
      | Some user \<Rightarrow>
          (Inr (user\<lparr>lastLogin := now\<rparr>),
           s\<lparr>users := update_first (\<lambda>u. googleId u = id_profile profile)
                          (\<lambda>u. u\<lparr>lastLogin := now\<rparr>) (users s)\<rparr>))"

text \<open>
  The library \<^verbatim>\<open>jsonwebtoken\<close> is modelled symbolically. A token carries its payload,
  the second it was issued at, the second it expires at (if any) and the key its
  signature was made with; a signature verifies under a key exactly when it was made
  with that key. The compact text of a token is left abstract: \<open>decode\<close>, a parameter of
  the model, reads a string as a token, or as none when it is malformed.
\<close>

record claims =
  id_jwt :: string
  email_jwt :: string
  role_jwt :: string

record jwt =
  payload :: claims
  iat_jwt :: int
  exp_jwt :: "int option"
  key_jwt :: string

text \<open>\<^verbatim>\<open>jwt.sign(payload, secret, { expiresIn: '7d' })\<close> at the clock \<open>now\<close> (milliseconds).\<close>

definition jwt_sign :: "claims \<Rightarrow> string \<Rightarrow> int \<Rightarrow> jwt" where
  "jwt_sign p secret now =
     \<lparr>payload = p, iat_jwt = now div 1000,
      exp_jwt = Some (now div 1000 + 7 * 24 * 60 * 60), key_jwt = secret\<rparr>"

text \<open>The token that \<^verbatim>\<open>GET /auth/google/callback\<close> issues for the signed-in user.\<close>

definition issue_token :: "string \<Rightarrow> user \<Rightarrow> int \<Rightarrow> jwt" where
  "issue_token secret u now =
     jwt_sign \<lparr>id_jwt = id_user u, email_jwt = email u, role_jwt = role u\<rparr> secret now"

text \<open>
  \<^verbatim>\<open>jwt.verify(token, secret)\<close>: an error (\<open>None\<close>) for a malformed token, for a
  signature made with another key, and for a token whose expiry is not after the clock.
\<close>

definition jwt_verify :: "(string \<Rightarrow> jwt option) \<Rightarrow> string \<Rightarrow> int \<Rightarrow> string \<Rightarrow> claims option" where
  "jwt_verify decode secret now token =
     (case decode token of
        None \<Rightarrow> None
      | Some j \<Rightarrow>
          if key_jwt j \<noteq> secret then None
          else (case exp_jwt j of
                  None \<Rightarrow> Some (payload j)
                | Some e \<Rightarrow> if e \<le> now div 1000 then None else Some (payload j)))"

text \<open>
  The middleware \<^verbatim>\<open>authenticateToken\<close>. Its constant \<^verbatim>\<open>token\<close>,
  \<^verbatim>\<open>authHeader && authHeader.split(' ')[1]\<close>, is \<^verbatim>\<open>undefined\<close> (\<open>None\<close>) or a string:
  a missing header gives \<^verbatim>\<open>undefined\<close>, an empty header gives itself, and any other
  header gives its second word, if it has one.
\<close>

definition token_of :: "string option \<Rightarrow> string option" where
  "token_of authHeader =
     (case authHeader of
        None \<Rightarrow> None
      | Some h \<Rightarrow>
          if h = [] then Some []
          else (case split_on CHR '' '' h of _ # t # _ \<Rightarrow> Some t | _ \<Rightarrow> None))"

text \<open>
  \<^verbatim>\<open>!token\<close> holds for \<^verbatim>\<open>undefined\<close> and for the empty string. The result is the error
  response, or the claims put into \<^verbatim>\<open>req.user\<close> before \<^verbatim>\<open>next()\<close>.
\<close>

definition authenticateToken ::
  "(string \<Rightarrow> jwt option) \<Rightarrow> string \<Rightarrow> int \<Rightarrow> string option \<Rightarrow> (nat \<times> string) + claims" where
  "authenticateToken decode secret now authHeader =
     (case token_of authHeader of
        None \<Rightarrow> Inl (401, ''Access token required'')
      | Some token \<Rightarrow>
          if token = [] then Inl (401, ''Access token required'')
          else (case jwt_verify decode secret now token of
                  None \<Rightarrow> Inl (403, ''Invalid token'')
                | Some user \<Rightarrow> Inr user))"

text \<open>
  A route \<^verbatim>\<open>app.get(path, authenticateToken, handler)\<close>: the handler runs only after
  \<^verbatim>\<open>next()\<close>, on the state the request found.
\<close>

definition protected ::
  "(string \<Rightarrow> jwt option) \<Rightarrow> string \<Rightarrow> int \<Rightarrow> string option \<Rightarrow>
   (claims \<Rightarrow> state \<Rightarrow> 'a response \<times> state) \<Rightarrow> state \<Rightarrow> 'a response \<times> state" where
  "protected decode secret now authHeader handler s =
     (case authenticateToken decode secret now authHeader of
        Inl (code, message) \<Rightarrow> (JsonError code message, s)
      | Inr req_user \<Rightarrow> handler req_user s)"

section \<open>User routes\<close>

text \<open>The handler of \<^verbatim>\<open>GET /api/user\<close>, behind \<^verbatim>\<open>authenticateToken\<close>.\<close>

definition get_user :: "claims \<Rightarrow> state \<Rightarrow> (string \<times> field) list response" where
  "get_user req_user s =
     (case find (\<lambda>u. id_user u = id_jwt req_user) (users s) of
        None \<Rightarrow> JsonError 404 ''User not found''
      | Some user \<Rightarrow> Json200 (rest_without ''googleId'' (properties user)))"

text \<open>The handler of \<^verbatim>\<open>GET /api/user/:email\<close>.\<close>

definition get_user_by_email :: "string \<Rightarrow> state \<Rightarrow> (string \<times> field) list response" where
  "get_user_by_email params_email s =
     (case find (\<lambda>u. email u = params_email) (users s) of
        None \<Rightarrow> JsonError 404 ''User not found''
      | Some user \<Rightarrow> Json200 (rest_without ''googleId'' (properties user)))"

section \<open>Submitting a mock test\<close>

text \<open>
  The object \<^verbatim>\<open>newTest\<close> of \<^verbatim>\<open>POST /api/mock-test\<close>. The body is a JSON object: a
  property that is absent reads as \<^verbatim>\<open>undefined\<close>. The accuracy is computed from the
  submitted \<^verbatim>\<open>attempted\<close> and \<^verbatim>\<open>correct\<close>, which \<^verbatim>\<open>></\<close> and \<^verbatim>\<open>/\<close> turn into numbers.
\<close>

definition newTest_of :: "(string \<Rightarrow> jsval) \<Rightarrow> int \<Rightarrow> test" where
  "newTest_of body now =
     (let testName' = body ''testName'';
          score' = body ''score'';
          attempted' = body ''attempted'';
          correct' = body ''correct'';
          incorrect' = body ''incorrect''
      in \<lparr>id_test = int_toString now,
          testName = testName',
          score = parseInt score',
          attempted = js_or (parseInt attempted') (Num 120),
          correct = js_or (parseInt correct') (Num 0),
          incorrect = js_or (parseInt incorrect') (Num 0),
          date = now,
          accuracy =
            (if js_gt (ToNumber attempted') (Num 0)
             then Math_round (js_mul (js_div (ToNumber correct') (ToNumber attempted')) (Num 100))
             else Num 0)\<rparr>)"

text \<open>The four assignments to the user found (lines 236 to 244).\<close>

definition record_test :: "test \<Rightarrow> user \<Rightarrow> user" where
  "record_test newTest user =
     (let user1 = user\<lparr>mockTests := mockTests user @ [newTest]\<rparr>;
          user2 = user1\<lparr>totalTests := totalTests user1 + 1\<rparr>;
          totalScore = foldl (\<lambda>sum t. js_add sum (score t)) (Num 0) (mockTests user2);
          user3 = user2\<lparr>averageScore :=
                          Math_round (js_div totalScore (Num (real (totalTests user2))))\<rparr>
      in user3\<lparr>bestScore := Math_max (bestScore user3) (score newTest)\<rparr>)"

text \<open>The copy pushed to the global array: \<^verbatim>\<open>{...newTest, userId, userEmail, userName}\<close>.\<close>

definition ledger_copy :: "test \<Rightarrow> user \<Rightarrow> ledger_entry" where
  "ledger_copy newTest user =
     test.extend newTest
       (ledger_entry.fields (id_user user) (email user) (name user))"

record mock_test_saved =
  success :: bool
  user_summary :: "(string \<times> field) list"
  test_saved :: test
  message :: string

definition post_mock_test ::
  "claims \<Rightarrow> (string \<Rightarrow> jsval) \<Rightarrow> int \<Rightarrow> state \<Rightarrow> mock_test_saved response \<times> state" where
  "post_mock_test req_user body now s =
     (if \<not> truthy (body ''testName'') \<or> body ''score'' = JUndefined
      then (JsonError 400 ''Test name and score are required'', s)
      else
        (case find (\<lambda>u. id_user u = id_jwt req_user) (users s) of
           None \<Rightarrow> (JsonError 404 ''User not found'', s)
         | Some user \<Rightarrow>
             (let newTest = newTest_of body now;
                  user' = record_test newTest user
              in (Json200
                    \<lparr>success = True,
                     user_summary =
                       [(''id'', FString (id_user user')),
                        (''name'', FString (name user')),
                        (''email'', FString (email user')),
                        (''totalTests'', FNumber (Num (real (totalTests user')))),
                        (''averageScore'', FNumber (averageScore user')),
                        (''bestScore'', FNumber (bestScore user'))],
                     test_saved = newTest,
                     message = ''Mock test saved successfully!''\<rparr>,
                  \<lparr>users = update_first (\<lambda>u. id_user u = id_jwt req_user)
                             (record_test newTest) (users s),
                   mockTests_all = mockTests_all s @ [ledger_copy newTest user']\<rparr>))))"

text \<open>The whole route \<^verbatim>\<open>app.post('/api/mock-test', authenticateToken, handler)\<close>.\<close>

definition route_mock_test ::
  "(string \<Rightarrow> jwt option) \<Rightarrow> string \<Rightarrow> string option \<Rightarrow> (string \<Rightarrow> jsval) \<Rightarrow> int \<Rightarrow>
   state \<Rightarrow> mock_test_saved response \<times> state" where
  "route_mock_test decode secret authHeader body now s =
     protected decode secret now authHeader (\<lambda>req_user. post_mock_test req_user body now) s"


section \<open>Leaderboard\<close>

record leaderboard_row =
  rank :: nat
  name_row :: string
  email_row :: string
  score_row :: jsnum
  tests_row :: nat
  bestScore_row :: jsnum
  lastActive :: int

definition leaderboard_of :: "nat \<times> user \<Rightarrow> leaderboard_row" where
  "leaderboard_of p =
     (case p of (index, user) \<Rightarrow>
        \<lparr>rank = index + 1, name_row = name user, email_row = email user,
         score_row = averageScore user, tests_row = totalTests user,
         bestScore_row = bestScore user, lastActive = lastLogin user\<rparr>)"

definition get_leaderboard :: "state \<Rightarrow> leaderboard_row list response" where
  "get_leaderboard s =
     Json200
       (map leaderboard_of
          (enumerate 0
             (js_slice 0 (Some 20)
                (js_sort (\<lambda>a b. js_sub (averageScore b) (averageScore a))
                   (filter (\<lambda>u. 0 < totalTests u) (users s))))))"

section \<open>Analytics helpers\<close>



subsection \<open>Dates\<close>

text \<open>
  A \<^verbatim>\<open>Date\<close> holds a time value: the milliseconds since the epoch, in UTC. The calendar
  functions are those of ECMAScript (section Time Values and Time Range). \<open>YearFromTime\<close>
  is the largest year that starts at or before the time: it is within one year of the
  estimate that takes 146097 days for 400 years.
\<close>

definition msPerDay :: int where
  "msPerDay = 86400000"

definition Day :: "int \<Rightarrow> int" where
  "Day t = t div msPerDay"

definition TimeWithinDay :: "int \<Rightarrow> int" where
  "TimeWithinDay t = t mod msPerDay"

definition DayFromYear :: "int \<Rightarrow> int" where
  "DayFromYear y =
     365 * (y - 1970) + (y - 1969) div 4 - (y - 1901) div 100 + (y - 1601) div 400"

definition DaysInYear :: "int \<Rightarrow> int" where
  "DaysInYear y = DayFromYear (y + 1) - DayFromYear y"

definition YearFromTime :: "int \<Rightarrow> int" where
  "YearFromTime t =
     (let d = Day t; e = 1970 + (400 * d) div 146097
      in if DayFromYear (e + 1) \<le> d then e + 1 else if DayFromYear e \<le> d then e else e - 1)"

definition DayWithinYear :: "int \<Rightarrow> int" where
  "DayWithinYear t = Day t - DayFromYear (YearFromTime t)"

text \<open>The day of the year on which the month \<open>m\<close> (0 to 11) starts.\<close>

definition month_start :: "int \<Rightarrow> int \<Rightarrow> int" where
  "month_start y m =
     [0, 31, 59, 90, 120, 151, 181, 212, 243, 273, 304, 334] ! nat m
     + (if DaysInYear y = 366 \<and> 2 \<le> m then 1 else 0)"

definition MonthFromTime :: "int \<Rightarrow> int" where
  "MonthFromTime t =
     int (length (filter (\<lambda>m. month_start (YearFromTime t) m \<le> DayWithinYear t) [1..11]))"

definition DateFromTime :: "int \<Rightarrow> int" where
  "DateFromTime t = DayWithinYear t - month_start (YearFromTime t) (MonthFromTime t) + 1"

definition MakeDay :: "int \<Rightarrow> int \<Rightarrow> int \<Rightarrow> int" where
  "MakeDay year month dt =
     (let ym = year + month div 12; mn = month mod 12
      in DayFromYear ym + month_start ym mn + dt - 1)"

definition MakeDate :: "int \<Rightarrow> int \<Rightarrow> int" where
  "MakeDate day time = day * msPerDay + time"

text \<open>\<^verbatim>\<open>TimeClip\<close>: a time beyond 100 million days from the epoch is an invalid date.\<close>

definition TimeClip :: "int \<Rightarrow> int option" where
  "TimeClip t = (if 8640000000000000 < \<bar>t\<bar> then None else Some t)"

text \<open>
  The time zone of the server is a parameter: \<open>tza t True\<close> is the offset of local time
  from UTC, in milliseconds, at the UTC time \<open>t\<close>, and \<open>tza t False\<close> is the offset at
  the local time \<open>t\<close> (\<^verbatim>\<open>LocalTZA\<close> in ECMAScript).
\<close>

definition LocalTime :: "(int \<Rightarrow> bool \<Rightarrow> int) \<Rightarrow> int \<Rightarrow> int" where
  "LocalTime tza t = t + tza t True"

definition UTC :: "(int \<Rightarrow> bool \<Rightarrow> int) \<Rightarrow> int \<Rightarrow> int" where
  "UTC tza t = t - tza t False"

text \<open>\<^verbatim>\<open>Date.prototype.getDate\<close>: the day of the month, in local time.\<close>

definition getDate :: "(int \<Rightarrow> bool \<Rightarrow> int) \<Rightarrow> int \<Rightarrow> int" where
  "getDate tza t = DateFromTime (LocalTime tza t)"

text \<open>
  \<^verbatim>\<open>Date.prototype.setDate(dt)\<close> on a valid date: the day of the month is replaced in
  local time, the time within the day is kept, and the result is read back as UTC.
\<close>

definition setDate :: "(int \<Rightarrow> bool \<Rightarrow> int) \<Rightarrow> int \<Rightarrow> int \<Rightarrow> int option" where
  "setDate tza t dt =
     (let t' = LocalTime tza t;
          newDate = MakeDate (MakeDay (YearFromTime t') (MonthFromTime t') dt) (TimeWithinDay t')
      in TimeClip (UTC tza newDate))"

text \<open>
  \<^verbatim>\<open>calculateWeeklyProgress\<close> at the clock \<open>now\<close>, the value of \<^verbatim>\<open>new Date()\<close>, in the
  time zone \<open>tza\<close>. A comparison with an invalid date is false.
\<close>

record weekly_row =
  date_row :: int
  score_weekly :: jsnum
  testName_row :: jsval

definition calculateWeeklyProgress ::
  "(int \<Rightarrow> bool \<Rightarrow> int) \<Rightarrow> int \<Rightarrow> test list \<Rightarrow> weekly_row list" where
  "calculateWeeklyProgress tza now tests =
     (if length tests < 2 then []
      else
        let oneWeekAgo = setDate tza now (getDate tza now - 7);
            recentTests =
              filter (\<lambda>test. case oneWeekAgo of None \<Rightarrow> False | Some w \<Rightarrow> w \<le> date test) tests
        in map (\<lambda>test. \<lparr>date_row = date test, score_weekly = score test,
                         testName_row = testName test\<rparr>) recentTests)"

section \<open>Sample requests\<close>

text \<open>A JSON object as a request body: a key that is not there reads as \<^verbatim>\<open>undefined\<close>.\<close>

definition json_body :: "(string \<times> jsval) list \<Rightarrow> string \<Rightarrow> jsval" where
  "json_body kvs k = (case map_of kvs k of None \<Rightarrow> JUndefined | Some v \<Rightarrow> v)"

text \<open>
  The body \<^verbatim>\<open>{testName: "Mock", score: x}\<close> and the test that the server records for it
  at the time \<open>now\<close>.
\<close>

definition sample_body :: "real \<Rightarrow> string \<Rightarrow> jsval" where
  "sample_body x k =
     (if k = ''testName'' then JString ''Mock'' else if k = ''score'' then JNumber (Num x)
      else JUndefined)"

definition sample_test :: "real \<Rightarrow> int \<Rightarrow> test" where
  "sample_test x now = newTest_of (sample_body x) now"

text \<open>A token text \<^verbatim>\<open>abc\<close> that reads as a token for the user 1, issued at time 0.\<close>

definition sample_claims :: claims where
  "sample_claims = \<lparr>id_jwt = ''1'', email_jwt = ''a@example.org'', role_jwt = ''student''\<rparr>"

definition sample_decode :: "string \<Rightarrow> string \<Rightarrow> jwt option" where
  "sample_decode key t = (if t = ''abc'' then Some (jwt_sign sample_claims key 0) else None)"

text \<open>The state after the first sign-in of a Google profile at time 1.\<close>

definition sample_profile :: profile where
  "sample_profile =
     \<lparr>id_profile = ''g-1'', emails = [''a@example.org''], displayName = ''Asha'',
      photos = [''https://example.org/a.png'']\<rparr>"

definition sample_state :: state where
  "sample_state = snd (google_strategy sample_profile 1 \<lparr>users = [], mockTests_all = []\<rparr>)"

text \<open>
  Three users sign in at the times 1, 2 and 3; the first then submits the score 70 and
  the second the score 90.
\<close>

definition profile_of :: "string \<Rightarrow> profile" where
  "profile_of n =
     \<lparr>id_profile = ''g-'' @ n, emails = [n @ ''@example.org''], displayName = n,
      photos = [''https://example.org/'' @ n]\<rparr>"

definition claims_of :: "string \<Rightarrow> claims" where
  "claims_of i = \<lparr>id_jwt = i, email_jwt = ''-'', role_jwt = ''student''\<rparr>"

definition three_users :: state where
  "three_users =
     (let s1 = snd (google_strategy (profile_of ''a'') 1 \<lparr>users = [], mockTests_all = []\<rparr>);
          s2 = snd (google_strategy (profile_of ''b'') 2 s1);
          s3 = snd (google_strategy (profile_of ''c'') 3 s2);
          s4 = snd (post_mock_test (claims_of ''1'') (sample_body 70) 4 s3)
      in snd (post_mock_test (claims_of ''2'') (sample_body 90) 5 s4))"

text \<open>
  The same three users, but the second submits the score \<^verbatim>\<open>"abc"\<close> and the third the
  score 90.
\<close>

definition three_users_nan :: state where
  "three_users_nan =
     (let s1 = snd (google_strategy (profile_of ''a'') 1 \<lparr>users = [], mockTests_all = []\<rparr>);
          s2 = snd (google_strategy (profile_of ''b'') 2 s1);
          s3 = snd (google_strategy (profile_of ''c'') 3 s2);
          s4 = snd (post_mock_test (claims_of ''1'') (sample_body 70) 4 s3);
          s5 = snd (post_mock_test (claims_of ''2'')
                      (json_body [(''testName'', JString ''Mock''), (''score'', JString ''abc'')])
                      5 s4)
      in snd (post_mock_test (claims_of ''3'') (sample_body 90) 6 s5))"

text \<open>
  Two time zones: UTC, and a zone that is one hour ahead of UTC until 01:00 UTC of the
  day 10 after the epoch and two hours ahead from then on (a change to summer time).
\<close>

definition utc_zone :: "int \<Rightarrow> bool \<Rightarrow> int" where
  "utc_zone t isUTC = 0"

definition summer_zone :: "int \<Rightarrow> bool \<Rightarrow> int" where
  "summer_zone t isUTC =
     (if isUTC then (if t < 10 * 86400000 + 3600000 then 3600000 else 7200000)
      else (if t < 10 * 86400000 + 3 * 3600000 then 3600000 else 7200000))"

section \<open>Properties\<close>

subsection \<open>Sums and slices\<close>




lemma js_slice_first: "0 \<le> e \<Longrightarrow> js_slice 0 (Some e) xs = take (nat e) xs"
  by (auto simp: js_slice_def Let_def min_def)


subsection \<open>Improvement\<close>




subsection \<open>Consistency\<close>














subsection \<open>Weekly progress\<close>

lemma MonthFromTime_range: "0 \<le> MonthFromTime t \<and> MonthFromTime t < 12"
proof -
  have "length (filter (\<lambda>m. month_start (YearFromTime t) m \<le> DayWithinYear t) [1..11])
          \<le> length [1..11::int]"
    by (rule length_filter_le)
  then show ?thesis
    by (simp add: MonthFromTime_def)
qed

text \<open>
  Whatever the month and the year, the day of the month minus 7 is the day 7 days
  before: \<open>MakeDay\<close> counts a day of the month below 1 back into the month before.
\<close>

lemma MakeDay_week_before:
  "MakeDay (YearFromTime t) (MonthFromTime t) (DateFromTime t - 7) = Day t - 7"
proof -
  have "MonthFromTime t div 12 = 0" "MonthFromTime t mod 12 = MonthFromTime t"
    using MonthFromTime_range [of t] by simp_all
  then show ?thesis
    by (simp add: MakeDay_def DateFromTime_def DayWithinYear_def Let_def)
qed

lemma setDate_week_before:
  "setDate tza now (getDate tza now - 7) = TimeClip (UTC tza (LocalTime tza now - 7 * msPerDay))"
proof -
  have "MakeDate (Day t - 7) (TimeWithinDay t) = t - 7 * msPerDay" for t
    by (simp add: MakeDate_def Day_def TimeWithinDay_def algebra_simps)
  then show ?thesis
    by (simp add: setDate_def getDate_def MakeDay_week_before Let_def)
qed

text \<open>
  Claim C4, as the code has it. For a history of fewer than 2 tests
  \<open>calculateWeeklyProgress\<close> returns the empty list. Otherwise it returns, each as its
  date, score and name and in the order of the history, exactly the tests that are not
  older than the instant \<open>w\<close> at which the local clock of the server showed the same time
  of day 7 calendar days before; beyond the range of valid dates \<open>w\<close> is invalid and no
  test is returned. When the offset of the server's zone at local time \<open>w\<close> is the offset
  at the evaluation, as it is in a zone without summer time, these are the tests that
  are at most 7 times 24 hours old; otherwise the window is longer or shorter by the
  difference of the two offsets.
\<close>

theorem calculateWeeklyProgress_window:
  "calculateWeeklyProgress tza now tests =
     (if length tests < 2 then []
      else map (\<lambda>t. \<lparr>date_row = date t, score_weekly = score t, testName_row = testName t\<rparr>)
             (filter (\<lambda>t. \<bar>now - 7 * 24 * 60 * 60 * 1000
                             + (tza now True - tza (now + tza now True - 7 * 24 * 60 * 60 * 1000) False)\<bar>
                             \<le> 8640000000000000
                          \<and> now - date t
                             \<le> 7 * 24 * 60 * 60 * 1000
                                - (tza now True - tza (now + tza now True - 7 * 24 * 60 * 60 * 1000) False))
                tests))
   \<and> (tza (now + tza now True - 7 * 24 * 60 * 60 * 1000) False = tza now True
        \<and> \<bar>now - 7 * 24 * 60 * 60 * 1000\<bar> \<le> 8640000000000000 \<longrightarrow>
      calculateWeeklyProgress tza now tests =
        (if length tests < 2 then []
         else map (\<lambda>t. \<lparr>date_row = date t, score_weekly = score t, testName_row = testName t\<rparr>)
                (filter (\<lambda>t. now - date t \<le> 7 * 24 * 60 * 60 * 1000) tests)))"
proof -
  define off where "off = tza now True - tza (now + tza now True - 7 * 24 * 60 * 60 * 1000) False"
  have w: "UTC tza (LocalTime tza now - 7 * msPerDay) = now - 7 * 24 * 60 * 60 * 1000 + off"
    by (simp add: UTC_def LocalTime_def msPerDay_def off_def)
  have window: "(case TimeClip (now - 7 * 24 * 60 * 60 * 1000 + off) of
                   None \<Rightarrow> False | Some w \<Rightarrow> w \<le> d)
                = (\<bar>now - 7 * 24 * 60 * 60 * 1000 + off\<bar> \<le> 8640000000000000
                   \<and> now - d \<le> 7 * 24 * 60 * 60 * 1000 - off)" for d
    by (auto simp: TimeClip_def)
  have general: "calculateWeeklyProgress tza now tests =
     (if length tests < 2 then []
      else map (\<lambda>t. \<lparr>date_row = date t, score_weekly = score t, testName_row = testName t\<rparr>)
             (filter (\<lambda>t. \<bar>now - 7 * 24 * 60 * 60 * 1000 + off\<bar> \<le> 8640000000000000
                          \<and> now - date t \<le> 7 * 24 * 60 * 60 * 1000 - off)
                tests))"
    unfolding calculateWeeklyProgress_def setDate_week_before w Let_def window ..
  show ?thesis
  proof (intro conjI impI)
    show "calculateWeeklyProgress tza now tests =
     (if length tests < 2 then []
      else map (\<lambda>t. \<lparr>date_row = date t, score_weekly = score t, testName_row = testName t\<rparr>)
             (filter (\<lambda>t. \<bar>now - 7 * 24 * 60 * 60 * 1000
                             + (tza now True - tza (now + tza now True - 7 * 24 * 60 * 60 * 1000) False)\<bar>
                             \<le> 8640000000000000
                          \<and> now - date t
                             \<le> 7 * 24 * 60 * 60 * 1000
                                - (tza now True - tza (now + tza now True - 7 * 24 * 60 * 60 * 1000) False))
                tests))"
      using general unfolding off_def .
  next
    assume "tza (now + tza now True - 7 * 24 * 60 * 60 * 1000) False = tza now True
        \<and> \<bar>now - 7 * 24 * 60 * 60 * 1000\<bar> \<le> 8640000000000000"
    then have "off = 0" "\<bar>now - 7 * 24 * 60 * 60 * 1000\<bar> \<le> 8640000000000000"
      by (simp_all add: off_def)
    then show "calculateWeeklyProgress tza now tests =
        (if length tests < 2 then []
         else map (\<lambda>t. \<lparr>date_row = date t, score_weekly = score t, testName_row = testName t\<rparr>)
                (filter (\<lambda>t. now - date t \<le> 7 * 24 * 60 * 60 * 1000) tests))"
      using general by simp
  qed
qed

text \<open>
  Under UTC, of two tests, one eight days old and one a second old, only the second is
  returned.
\<close>

theorem calculateWeeklyProgress_window_witness:
  "calculateWeeklyProgress utc_zone (8 * 86400000)
     [sample_test 70 0, sample_test 80 (8 * 86400000 - 1000)]
   = [\<lparr>date_row = 8 * 86400000 - 1000, score_weekly = Num 80, testName_row = JString ''Mock''\<rparr>]"
  using calculateWeeklyProgress_window
          [of utc_zone "8 * 86400000" "[sample_test 70 0, sample_test 80 (8 * 86400000 - 1000)]"]
  by (simp add: utc_zone_def sample_test_def sample_body_def newTest_of_def parseInt_number_def Let_def)

text \<open>
  Across the change to summer time the window is an hour shorter. Evaluated at 12:00 UTC
  of the day 15 after the epoch (14:00 local time on the 16th of January 1970), the
  instant \<open>w\<close> is 14:00 local time of the day 8, which was 13:00 UTC: a test submitted
  at 12:30 UTC of the day 8, less than 7 times 24 hours old, is left out.
\<close>

lemma calculateWeeklyProgress_summer_time:
  "setDate summer_zone (15 * 86400000 + 12 * 3600000)
     (getDate summer_zone (15 * 86400000 + 12 * 3600000) - 7)
   = Some (8 * 86400000 + 13 * 3600000)
   \<and> getDate summer_zone (15 * 86400000 + 12 * 3600000) = 16
   \<and> calculateWeeklyProgress summer_zone (15 * 86400000 + 12 * 3600000)
       [sample_test 70 (8 * 86400000 + 12 * 3600000 + 1800000),
        sample_test 80 (8 * 86400000 + 13 * 3600000)]
     = [\<lparr>date_row = 8 * 86400000 + 13 * 3600000, score_weekly = Num 80,
         testName_row = JString ''Mock''\<rparr>]"
proof (intro conjI)
  show w: "setDate summer_zone (15 * 86400000 + 12 * 3600000)
     (getDate summer_zone (15 * 86400000 + 12 * 3600000) - 7)
   = Some (8 * 86400000 + 13 * 3600000)"
    by (simp add: setDate_week_before TimeClip_def UTC_def LocalTime_def summer_zone_def msPerDay_def)
  show "getDate summer_zone (15 * 86400000 + 12 * 3600000) = 16"
    by (simp add: getDate_def LocalTime_def summer_zone_def DateFromTime_def DayWithinYear_def
          YearFromTime_def Day_def msPerDay_def DayFromYear_def MonthFromTime_def month_start_def
          DaysInYear_def Let_def upto.simps)
  show "calculateWeeklyProgress summer_zone (15 * 86400000 + 12 * 3600000)
       [sample_test 70 (8 * 86400000 + 12 * 3600000 + 1800000),
        sample_test 80 (8 * 86400000 + 13 * 3600000)]
     = [\<lparr>date_row = 8 * 86400000 + 13 * 3600000, score_weekly = Num 80,
         testName_row = JString ''Mock''\<rparr>]"
    unfolding calculateWeeklyProgress_def w
    by (simp add: sample_test_def sample_body_def newTest_of_def parseInt_number_def Let_def)
qed

text \<open>
  A history of one test, submitted a second before the evaluation, yields the empty
  list and not that test (here under UTC; the guard on the length comes before any date
  is read).
\<close>

theorem calculateWeeklyProgress_single_test:
  "2000 - date (sample_test 80 1000) \<le> 7 * 24 * 60 * 60 * 1000
   \<and> calculateWeeklyProgress utc_zone 2000 [sample_test 80 1000] = []"
  by (simp add: calculateWeeklyProgress_def sample_test_def newTest_of_def Let_def)

subsection \<open>User routes\<close>

lemma sample_state_eq:
  "sample_state =
     \<lparr>users = [\<lparr>id_user = ''1'', googleId = ''g-1'', email = ''a@example.org'', name = ''Asha'',
                avatar = ''https://example.org/a.png'', role = ''student'', mockTests = [],
                totalTests = 0, averageScore = Num 0, bestScore = Num 0, joinedDate = 1,
                lastLogin = 1\<rparr>],
      mockTests_all = []\<rparr>"
  by (simp add: sample_state_def google_strategy_def sample_profile_def int_toString_def
        digits_of_nat.simps Let_def)

lemma map_of_rest_without:
  "map_of (rest_without k ps) k' = (if k' = k then None else map_of ps k')"
  by (induction ps) (auto simp: rest_without_def)

lemma keys_rest_without: "k \<notin> fst ` set (rest_without k ps)"
  by (auto simp: rest_without_def)

lemma find_Some_member: "u \<in> set us \<Longrightarrow> p u \<Longrightarrow> \<exists>v. find p us = Some v"
  by (induction us) auto

text \<open>
  Claim C9. When no user has the id of the token (\<^verbatim>\<open>GET /api/user\<close>) or the email of
  the path (\<^verbatim>\<open>GET /api/user/:email\<close>), the answer is 404 with the error
  \<^verbatim>\<open>User not found\<close>. Otherwise the body is the object of the user found without the
  key \<^verbatim>\<open>googleId\<close>: that key is absent and every other key has the value it has in the
  user. For every stored user, both routes answer 200 with a body that has no key
  \<^verbatim>\<open>googleId\<close>.
\<close>

theorem user_routes_omit_googleId:
  "(find (\<lambda>u. id_user u = id_jwt req_user) (users s) = None \<longrightarrow>
      get_user req_user s = JsonError 404 ''User not found'')
   \<and> (find (\<lambda>u. email u = params_email) (users s) = None \<longrightarrow>
      get_user_by_email params_email s = JsonError 404 ''User not found'')
   \<and> (find (\<lambda>u. id_user u = id_jwt req_user) (users s) = Some u \<longrightarrow>
      (\<exists>body. get_user req_user s = Json200 body \<and> ''googleId'' \<notin> fst ` set body
         \<and> (\<forall>k. map_of body k = (if k = ''googleId'' then None else map_of (properties u) k))))
   \<and> (find (\<lambda>u. email u = params_email) (users s) = Some u \<longrightarrow>
      (\<exists>body. get_user_by_email params_email s = Json200 body \<and> ''googleId'' \<notin> fst ` set body
         \<and> (\<forall>k. map_of body k = (if k = ''googleId'' then None else map_of (properties u) k))))
   \<and> (u \<in> set (users s) \<longrightarrow>
      (\<exists>body. get_user_by_email (email u) s = Json200 body \<and> ''googleId'' \<notin> fst ` set body)
      \<and> (\<exists>body. get_user \<lparr>id_jwt = id_user u, email_jwt = email u, role_jwt = role u\<rparr> s = Json200 body
            \<and> ''googleId'' \<notin> fst ` set body))"
proof (intro conjI impI)
  assume "u \<in> set (users s)"
  then obtain v where "find (\<lambda>w. email w = email u) (users s) = Some v"
    using find_Some_member [of u "users s" "\<lambda>w. email w = email u"] by auto
  then show "\<exists>body. get_user_by_email (email u) s = Json200 body \<and> ''googleId'' \<notin> fst ` set body"
    by (simp add: get_user_by_email_def keys_rest_without)
next
  assume "u \<in> set (users s)"
  then obtain v where "find (\<lambda>w. id_user w = id_user u) (users s) = Some v"
    using find_Some_member [of u "users s" "\<lambda>w. id_user w = id_user u"] by auto
  then show "\<exists>body. get_user \<lparr>id_jwt = id_user u, email_jwt = email u, role_jwt = role u\<rparr> s = Json200 body
            \<and> ''googleId'' \<notin> fst ` set body"
    by (simp add: get_user_def keys_rest_without)
qed (simp_all add: get_user_def get_user_by_email_def keys_rest_without map_of_rest_without)

text \<open>
  After the first sign-in of the sample profile, both routes serve the user without the
  key \<^verbatim>\<open>googleId\<close> and with the email of the profile; an id and an email that nobody
  has give 404.
\<close>

theorem user_routes_omit_googleId_witness:
  "(\<exists>body. get_user sample_claims sample_state = Json200 body
      \<and> ''googleId'' \<notin> fst ` set body
      \<and> map_of body ''googleId'' = None
      \<and> map_of body ''email'' = Some (FString ''a@example.org''))
   \<and> (\<exists>body. get_user_by_email ''a@example.org'' sample_state = Json200 body
      \<and> ''googleId'' \<notin> fst ` set body)
   \<and> get_user (claims_of ''9'') sample_state = JsonError 404 ''User not found''
   \<and> get_user_by_email ''b@example.org'' sample_state = JsonError 404 ''User not found''"
proof (intro conjI)
  have found: "find (\<lambda>u. id_user u = id_jwt sample_claims) (users sample_state)
                 = Some (hd (users sample_state))"
    by (simp add: sample_state_eq sample_claims_def)
  have email: "map_of (properties (hd (users sample_state))) ''email'' = Some (FString ''a@example.org'')"
    by (simp add: sample_state_eq properties_def)
  from user_routes_omit_googleId [of sample_claims sample_state "''b@example.org''"
         "hd (users sample_state)"] found
  obtain body where body: "get_user sample_claims sample_state = Json200 body"
    "''googleId'' \<notin> fst ` set body"
    "\<forall>k. map_of body k = (if k = ''googleId'' then None else map_of (properties (hd (users sample_state))) k)"
    by blast
  have "map_of body ''googleId'' = None" "map_of body ''email'' = Some (FString ''a@example.org'')"
    using body(3) email by simp_all
  then show "\<exists>body. get_user sample_claims sample_state = Json200 body
      \<and> ''googleId'' \<notin> fst ` set body
      \<and> map_of body ''googleId'' = None
      \<and> map_of body ''email'' = Some (FString ''a@example.org'')"
    using body(1,2) by blast
next
  have stored: "hd (users sample_state) \<in> set (users sample_state)"
    "email (hd (users sample_state)) = ''a@example.org''"
    by (simp_all add: sample_state_eq)
  from user_routes_omit_googleId [of sample_claims sample_state "''b@example.org''"
         "hd (users sample_state)"] stored(1)
  have "\<exists>body. get_user_by_email (email (hd (users sample_state))) sample_state = Json200 body
          \<and> ''googleId'' \<notin> fst ` set body"
    by blast
  then show "\<exists>body. get_user_by_email ''a@example.org'' sample_state = Json200 body
      \<and> ''googleId'' \<notin> fst ` set body"
    unfolding stored(2) .
next
  have "find (\<lambda>u. id_user u = id_jwt (claims_of ''9'')) (users sample_state) = None"
    by (simp add: sample_state_eq claims_of_def)
  with user_routes_omit_googleId [of "claims_of ''9''" sample_state "''b@example.org''"]
  show "get_user (claims_of ''9'') sample_state = JsonError 404 ''User not found''"
    by blast
next
  have "find (\<lambda>u. email u = ''b@example.org'') (users sample_state) = None"
    by (simp add: sample_state_eq)
  with user_routes_omit_googleId [of sample_claims sample_state "''b@example.org''"]
  show "get_user_by_email ''b@example.org'' sample_state = JsonError 404 ''User not found''"
    by blast
qed

subsection \<open>Bearer tokens\<close>

lemma expired_after_seven_days:
  assumes "issued + 7 * 24 * 60 * 60 * 1000 \<le> now"
    and that: "decode t = Some (jwt_sign p key issued)"
  shows "jwt_verify decode secret now t = None"
proof -
  have "(issued + 604800 * 1000) div 1000 \<le> now div 1000"
    using assms by (intro zdiv_mono1) simp_all
  then have "issued div 1000 + 604800 \<le> now div 1000"
    by simp
  then show ?thesis
    using that by (simp add: jwt_verify_def jwt_sign_def)
qed

lemma token_of_Bearer: "token_of (Some ''Bearer abc'') = Some ''abc''"
  by (simp add: token_of_def)

text \<open>
  Claim C7. On a route behind \<open>authenticateToken\<close>, a request without a token (no
  header, an empty header, a header without a second word or with an empty one) is
  answered 401 whatever the handler is, so the handler does not run. A request whose
  token fails \<^verbatim>\<open>jwt.verify\<close> is answered 403, and so is every request whose token was
  issued 7 days or more before, whichever key signed it. In both cases the stored state
  is the one the request found, and a request that passes hands that same state to the
  handler.
\<close>

theorem authenticateToken_rejects:
  "(token_of authHeader = None \<or> token_of authHeader = Some [] \<longrightarrow>
      protected decode secret now authHeader handler s
        = (JsonError 401 ''Access token required'', s))
   \<and> (token_of authHeader = Some t \<and> t \<noteq> [] \<and> jwt_verify decode secret now t = None \<longrightarrow>
      protected decode secret now authHeader handler s = (JsonError 403 ''Invalid token'', s))
   \<and> (token_of authHeader = Some t \<and> t \<noteq> [] \<and> decode t = Some (jwt_sign p key issued)
        \<and> issued + 7 * 24 * 60 * 60 * 1000 \<le> now \<longrightarrow>
      protected decode secret now authHeader handler s = (JsonError 403 ''Invalid token'', s))
   \<and> (token_of authHeader = Some t \<and> t \<noteq> [] \<and> jwt_verify decode secret now t = Some c \<longrightarrow>
      protected decode secret now authHeader handler s = handler c s)"
proof (intro conjI impI)
  assume "token_of authHeader = Some t \<and> t \<noteq> [] \<and> decode t = Some (jwt_sign p key issued)
        \<and> issued + 7 * 24 * 60 * 60 * 1000 \<le> now"
  then show "protected decode secret now authHeader handler s = (JsonError 403 ''Invalid token'', s)"
    using expired_after_seven_days [of issued now decode t p key secret]
    by (simp add: protected_def authenticateToken_def)
qed (auto simp: protected_def authenticateToken_def)

text \<open>
  The sample token: without a header 401; signed with another key 403; presented 7 days
  after its issue 403; presented 5 milliseconds after its issue, the handler runs.
\<close>

theorem authenticateToken_rejects_witness:
  "protected (sample_decode ''secret'') ''secret'' 5 None (\<lambda>c s. (Json200 c, s)) sample_state
     = (JsonError 401 ''Access token required'', sample_state)
   \<and> protected (sample_decode ''other'') ''secret'' 5 (Some ''Bearer abc'') (\<lambda>c s. (Json200 c, s)) sample_state
     = (JsonError 403 ''Invalid token'', sample_state)
   \<and> protected (sample_decode ''secret'') ''secret'' (7 * 24 * 60 * 60 * 1000) (Some ''Bearer abc'')
        (\<lambda>c s. (Json200 c, s)) sample_state
     = (JsonError 403 ''Invalid token'', sample_state)
   \<and> protected (sample_decode ''secret'') ''secret'' 5 (Some ''Bearer abc'') (\<lambda>c s. (Json200 c, s)) sample_state
     = (Json200 sample_claims, sample_state)"
proof (intro conjI)
  show "protected (sample_decode ''secret'') ''secret'' 5 None (\<lambda>c s. (Json200 c, s)) sample_state
     = (JsonError 401 ''Access token required'', sample_state)"
    using authenticateToken_rejects [of None "sample_decode ''secret''" "''secret''" 5
            "\<lambda>c s. (Json200 c, s)" sample_state]
    by (simp add: token_of_def)
next
  have "jwt_verify (sample_decode ''other'') ''secret'' 5 ''abc'' = None"
    by (simp add: jwt_verify_def sample_decode_def jwt_sign_def)
  then show "protected (sample_decode ''other'') ''secret'' 5 (Some ''Bearer abc'') (\<lambda>c s. (Json200 c, s)) sample_state
     = (JsonError 403 ''Invalid token'', sample_state)"
    using authenticateToken_rejects [of "Some ''Bearer abc''" "sample_decode ''other''" "''secret''" 5
            "\<lambda>c s. (Json200 c, s)" sample_state "''abc''"]
    by (simp add: token_of_Bearer)
next
  have "sample_decode ''secret'' ''abc'' = Some (jwt_sign sample_claims ''secret'' 0)"
    by (simp add: sample_decode_def)
  then show "protected (sample_decode ''secret'') ''secret'' (7 * 24 * 60 * 60 * 1000) (Some ''Bearer abc'')
        (\<lambda>c s. (Json200 c, s)) sample_state
     = (JsonError 403 ''Invalid token'', sample_state)"
    using authenticateToken_rejects [of "Some ''Bearer abc''" "sample_decode ''secret''" "''secret''"
            "7 * 24 * 60 * 60 * 1000" "\<lambda>c s. (Json200 c, s)" sample_state "''abc''"
            sample_claims "''secret''" 0]
    by (simp add: token_of_Bearer)
next
  have "jwt_verify (sample_decode ''secret'') ''secret'' 5 ''abc'' = Some sample_claims"
    by (simp add: jwt_verify_def sample_decode_def jwt_sign_def)
  then show "protected (sample_decode ''secret'') ''secret'' 5 (Some ''Bearer abc'') (\<lambda>c s. (Json200 c, s)) sample_state
     = (Json200 sample_claims, sample_state)"
    using authenticateToken_rejects [of "Some ''Bearer abc''" "sample_decode ''secret''" "''secret''" 5
            "\<lambda>c s. (Json200 c, s)" sample_state "''abc''" _ _ _ sample_claims]
    by (simp add: token_of_Bearer)
qed

subsection \<open>Validation of a submission\<close>

lemma falsy_values:
  "(\<not> truthy v) =
     (v = JUndefined \<or> v = JNull \<or> v = JBool False \<or> v = JNumber NaN \<or> v = JNumber (Num 0)
      \<or> v = JString [])"
  by (cases v) auto

text \<open>
  Claim C8. The handler of \<^verbatim>\<open>POST /api/mock-test\<close> answers 400 exactly when
  \<^verbatim>\<open>testName\<close> is missing, which \<^verbatim>\<open>!testName\<close> reads as absent, \<^verbatim>\<open>null\<close>, \<^verbatim>\<open>false\<close>, 0,
  \<open>NaN\<close> or the empty string, or \<^verbatim>\<open>score\<close> is \<^verbatim>\<open>undefined\<close>. The 400 response carries
  the error \<^verbatim>\<open>Test name and score are required\<close> and leaves the users and the ledger as
  they were. A request that passes \<open>authenticateToken\<close> gets the answer of the handler.
\<close>

theorem mock_test_validation:
  "(status (fst (post_mock_test req_user body now s)) = 400
      \<longleftrightarrow> \<not> truthy (body ''testName'') \<or> body ''score'' = JUndefined)
   \<and> (\<not> truthy (body ''testName'')
      \<longleftrightarrow> body ''testName'' \<in> {JUndefined, JNull, JBool False, JNumber NaN, JNumber (Num 0), JString []})
   \<and> (status (fst (post_mock_test req_user body now s)) = 400 \<longrightarrow>
        post_mock_test req_user body now s = (JsonError 400 ''Test name and score are required'', s))
   \<and> (authenticateToken decode secret now authHeader = Inr req_user \<longrightarrow>
        route_mock_test decode secret authHeader body now s = post_mock_test req_user body now s)"
proof (intro conjI)
  show "(\<not> truthy (body ''testName''))
      \<longleftrightarrow> body ''testName'' \<in> {JUndefined, JNull, JBool False, JNumber NaN, JNumber (Num 0), JString []}"
    using falsy_values [of "body ''testName''"] by auto
qed (auto simp: post_mock_test_def route_mock_test_def protected_def Let_def split: option.splits)

text \<open>
  A score of 0 with a name is not answered 400; a body without a name and a body without
  a score are, also through the whole route, and the state stays the same.
\<close>

theorem mock_test_validation_witness:
  "status (fst (post_mock_test sample_claims (sample_body 0) 2 sample_state)) = 200
   \<and> post_mock_test sample_claims (json_body [(''score'', JNumber (Num 50))]) 2 sample_state
       = (JsonError 400 ''Test name and score are required'', sample_state)
   \<and> post_mock_test sample_claims (json_body [(''testName'', JString ''Mock'')]) 2 sample_state
       = (JsonError 400 ''Test name and score are required'', sample_state)
   \<and> route_mock_test (sample_decode ''secret'') ''secret'' (Some ''Bearer abc'')
         (json_body [(''testName'', JString ''Mock'')]) 2 sample_state
       = (JsonError 400 ''Test name and score are required'', sample_state)"
proof (intro conjI)
  have "truthy (sample_body 0 ''testName'')" "sample_body 0 ''score'' \<noteq> JUndefined"
    by (simp_all add: sample_body_def)
  then have "status (fst (post_mock_test sample_claims (sample_body 0) 2 sample_state)) \<noteq> 400"
    using mock_test_validation [of sample_claims "sample_body 0" 2 sample_state] by blast
  moreover have "find (\<lambda>u. id_user u = id_jwt sample_claims) (users sample_state) \<noteq> None"
    by (simp add: sample_state_eq sample_claims_def)
  ultimately show "status (fst (post_mock_test sample_claims (sample_body 0) 2 sample_state)) = 200"
    by (auto simp: post_mock_test_def Let_def split: if_splits option.splits)
next
  have "\<not> truthy (json_body [(''score'', JNumber (Num 50))] ''testName'')"
    by (simp add: json_body_def)
  then show "post_mock_test sample_claims (json_body [(''score'', JNumber (Num 50))]) 2 sample_state
       = (JsonError 400 ''Test name and score are required'', sample_state)"
    using mock_test_validation [of sample_claims "json_body [(''score'', JNumber (Num 50))]" 2 sample_state]
    by blast
next
  have undef: "json_body [(''testName'', JString ''Mock'')] ''score'' = JUndefined"
    by (simp add: json_body_def)
  then show "post_mock_test sample_claims (json_body [(''testName'', JString ''Mock'')]) 2 sample_state
       = (JsonError 400 ''Test name and score are required'', sample_state)"
    using mock_test_validation [of sample_claims "json_body [(''testName'', JString ''Mock'')]" 2 sample_state]
    by blast
  have "authenticateToken (sample_decode ''secret'') ''secret'' 2 (Some ''Bearer abc'') = Inr sample_claims"
    by (simp add: authenticateToken_def token_of_Bearer jwt_verify_def sample_decode_def jwt_sign_def)
  then show "route_mock_test (sample_decode ''secret'') ''secret'' (Some ''Bearer abc'')
         (json_body [(''testName'', JString ''Mock'')]) 2 sample_state
       = (JsonError 400 ''Test name and score are required'', sample_state)"
    using mock_test_validation [of sample_claims "json_body [(''testName'', JString ''Mock'')]" 2 sample_state
             "sample_decode ''secret''" "''secret''" "Some ''Bearer abc''"] undef
    by simp
qed

subsection \<open>Accuracy of a recorded test\<close>

text \<open>
  Claim C3, evaluated on three bodies. Without \<^verbatim>\<open>attempted\<close> and with 60 correct
  answers, the test is recorded with \<^verbatim>\<open>attempted\<close> 120, \<^verbatim>\<open>correct\<close> 60 and accuracy 0.
  With \<^verbatim>\<open>attempted\<close> 0 the recorded \<^verbatim>\<open>attempted\<close> is 120. With \<^verbatim>\<open>attempted\<close> 100 and
  without \<^verbatim>\<open>correct\<close>, the recorded \<^verbatim>\<open>correct\<close> is 0 and the accuracy is \<open>NaN\<close>.
\<close>

theorem newTest_accuracy_ignores_defaults:
  "attempted (newTest_of (json_body [(''testName'', JString ''Mock''), (''score'', JNumber (Num 50)),
                                      (''correct'', JNumber (Num 60))]) 0) = Num 120
   \<and> correct (newTest_of (json_body [(''testName'', JString ''Mock''), (''score'', JNumber (Num 50)),
                                      (''correct'', JNumber (Num 60))]) 0) = Num 60
   \<and> accuracy (newTest_of (json_body [(''testName'', JString ''Mock''), (''score'', JNumber (Num 50)),
                                      (''correct'', JNumber (Num 60))]) 0) = Num 0
   \<and> attempted (newTest_of (json_body [(''testName'', JString ''Mock''), (''score'', JNumber (Num 50)),
                                      (''attempted'', JNumber (Num 0))]) 0) = Num 120
   \<and> correct (newTest_of (json_body [(''testName'', JString ''Mock''), (''score'', JNumber (Num 50)),
                                      (''attempted'', JNumber (Num 100))]) 0) = Num 0
   \<and> accuracy (newTest_of (json_body [(''testName'', JString ''Mock''), (''score'', JNumber (Num 50)),
                                      (''attempted'', JNumber (Num 100))]) 0) = NaN"
  by (simp add: newTest_of_def json_body_def parseInt_number_def js_or_def js_gt_def Let_def)

subsection \<open>What a submission changes\<close>







subsection \<open>Aggregates of a user\<close>











subsection \<open>Leaderboard\<close>

lemma three_users_eq:
  "users three_users =
     [\<lparr>id_user = ''1'', googleId = ''g-a'', email = ''a@example.org'', name = ''a'',
       avatar = ''https://example.org/a'', role = ''student'', mockTests = [sample_test 70 4],
       totalTests = 1, averageScore = Num 70, bestScore = Num 70, joinedDate = 1, lastLogin = 1\<rparr>,
      \<lparr>id_user = ''2'', googleId = ''g-b'', email = ''b@example.org'', name = ''b'',
       avatar = ''https://example.org/b'', role = ''student'', mockTests = [sample_test 90 5],
       totalTests = 1, averageScore = Num 90, bestScore = Num 90, joinedDate = 2, lastLogin = 2\<rparr>,
      \<lparr>id_user = ''3'', googleId = ''g-c'', email = ''c@example.org'', name = ''c'',
       avatar = ''https://example.org/c'', role = ''student'', mockTests = [],
       totalTests = 0, averageScore = Num 0, bestScore = Num 0, joinedDate = 3, lastLogin = 3\<rparr>]"
  by (simp add: three_users_def google_strategy_def profile_of_def claims_of_def int_toString_def
        digits_of_nat.simps post_mock_test_def record_test_def sample_test_def sample_body_def
        newTest_of_def parseInt_number_def Let_def)

lemma mset_insert_cmp: "mset (insert_cmp cmp a bs) = add_mset a (mset bs)"
  by (induction bs) simp_all

lemma mset_js_sort: "mset (js_sort cmp xs) = mset xs"
  unfolding js_sort_def by (induction xs) (simp_all add: mset_insert_cmp)

lemma set_insert_cmp: "set (insert_cmp cmp a bs) = insert a (set bs)"
  using mset_insert_cmp [of cmp a bs] by (metis set_mset_add_mset_insert set_mset_mset)

lemma sorted_insert_cmp:
  assumes "\<forall>x\<in>set (a # bs). f x = Num (k x)"
    and "sorted_wrt (\<lambda>x y. k y \<le> k x) bs"
  shows "sorted_wrt (\<lambda>x y. k y \<le> k x) (insert_cmp (\<lambda>a b. js_sub (f b) (f a)) a bs)"
  using assms
proof (induction bs)
  case Nil
  then show ?case by simp
next
  case (Cons b bs)
  have gt: "js_gt (js_sub (f b) (f a)) (Num 0) = (k a < k b)"
    using Cons.prems(1) by (simp add: js_gt_def js_sub_def)
  show ?case
  proof (cases "k a < k b")
    case True
    have "sorted_wrt (\<lambda>x y. k y \<le> k x) (insert_cmp (\<lambda>a b. js_sub (f b) (f a)) a bs)"
      using Cons by simp
    moreover have "\<forall>y\<in>set (insert_cmp (\<lambda>a b. js_sub (f b) (f a)) a bs). k y \<le> k b"
      using True Cons.prems(2) by (auto simp: set_insert_cmp)
    ultimately show ?thesis
      using True gt by simp
  next
    case False
    then have "\<forall>y\<in>set (b # bs). k y \<le> k a"
      using Cons.prems(2) by auto
    then show ?thesis
      using False gt Cons.prems(2) by simp
  qed
qed

lemma sorted_js_sort:
  assumes "\<forall>x\<in>set xs. f x = Num (k x)"
  shows "sorted_wrt (\<lambda>x y. k y \<le> k x) (js_sort (\<lambda>a b. js_sub (f b) (f a)) xs)"
  using assms
proof (induction xs)
  case Nil
  then show ?case by (simp add: js_sort_def)
next
  case (Cons x xs)
  have sorted: "sorted_wrt (\<lambda>x y. k y \<le> k x) (js_sort (\<lambda>a b. js_sub (f b) (f a)) xs)"
    using Cons by simp
  have "set (js_sort (\<lambda>a b. js_sub (f b) (f a)) xs) = set xs"
    using mset_js_sort [of "\<lambda>a b. js_sub (f b) (f a)" xs] by (metis set_mset_mset)
  then have "\<forall>y\<in>set (x # js_sort (\<lambda>a b. js_sub (f b) (f a)) xs). f y = Num (k y)"
    using Cons.prems by simp
  from sorted_insert_cmp [OF this sorted] show ?case
    by (simp add: js_sort_def)
qed

lemma ranks_enumerate_from:
  "map rank (map leaderboard_of (enumerate n us)) = [Suc n..<Suc (n + length us)]"
proof (induction us arbitrary: n)
  case Nil
  then show ?case by simp
next
  case (Cons u us)
  have step: "[Suc n..<Suc (n + length (u # us))] = Suc n # [Suc (Suc n)..<Suc (Suc n + length us)]"
    by (simp add: upt_conv_Cons del: upt_Suc)
  show ?case
    unfolding step using Cons [of "Suc n"] by (simp add: leaderboard_of_def del: upt_Suc)
qed

lemma ranks_enumerate:
  "map rank (map leaderboard_of (enumerate 0 us)) = [1..<Suc (length us)]"
  using ranks_enumerate_from [of 0 us] by (simp only: One_nat_def add_0)

lemma map_snd_enumerate_from: "map (\<lambda>p. g (snd p)) (enumerate n us) = map g us"
  by (induction us arbitrary: n) simp_all

lemma rows_enumerate:
  "map score_row (map leaderboard_of (enumerate 0 us)) = map averageScore us"
  "map name_row (map leaderboard_of (enumerate 0 us)) = map name us"
  "map email_row (map leaderboard_of (enumerate 0 us)) = map email us"
  "map tests_row (map leaderboard_of (enumerate 0 us)) = map totalTests us"
  "map bestScore_row (map leaderboard_of (enumerate 0 us)) = map bestScore us"
  "map lastActive (map leaderboard_of (enumerate 0 us)) = map lastLogin us"
  using map_snd_enumerate_from [of averageScore 0 us] map_snd_enumerate_from [of name 0 us]
    map_snd_enumerate_from [of email 0 us] map_snd_enumerate_from [of totalTests 0 us]
    map_snd_enumerate_from [of bestScore 0 us] map_snd_enumerate_from [of lastLogin 0 us]
  by (simp_all add: leaderboard_of_def case_prod_unfold comp_def)

text \<open>
  Claim C6, as the code has it. In a state where every user with \<open>totalTests > 0\<close> has
  a finite \<open>averageScore\<close>, \<^verbatim>\<open>GET /api/leaderboard\<close> answers with the rows of a list
  \<open>ranked\<close> cut to its first 20 entries, where \<open>ranked\<close> is a rearrangement of exactly
  the users with \<open>totalTests > 0\<close> whose average scores \<open>ks\<close> descend. The rows carry the
  ranks 1, 2, ... in this order and the name, email, average score, number of tests,
  best score and last login of their users.
\<close>

theorem leaderboard_ranked:
  assumes "list_all (\<lambda>u. finite_num (averageScore u)) (filter (\<lambda>u. 0 < totalTests u) (users s))"
  shows "\<exists>ranked ks rows.
           get_leaderboard s = Json200 rows
         \<and> mset ranked = mset (filter (\<lambda>u. 0 < totalTests u) (users s))
         \<and> map averageScore ranked = map Num ks
         \<and> sorted_wrt (\<lambda>x y. y \<le> x) ks
         \<and> rows = map leaderboard_of (enumerate 0 (take 20 ranked))
         \<and> length rows = min 20 (length (filter (\<lambda>u. 0 < totalTests u) (users s)))
         \<and> map rank rows = [1..<Suc (length rows)]
         \<and> map score_row rows = map Num (take 20 ks)
         \<and> map name_row rows = map name (take 20 ranked)
         \<and> map email_row rows = map email (take 20 ranked)
         \<and> map tests_row rows = map totalTests (take 20 ranked)
         \<and> map bestScore_row rows = map bestScore (take 20 ranked)
         \<and> map lastActive rows = map lastLogin (take 20 ranked)"
proof -
  define active where "active = filter (\<lambda>u. 0 < totalTests u) (users s)"
  define k where "k = (\<lambda>u :: user. case averageScore u of Num x \<Rightarrow> x | _ \<Rightarrow> 0)"
  define ranked where "ranked = js_sort (\<lambda>a b. js_sub (averageScore b) (averageScore a)) active"
  define rows where "rows = map leaderboard_of (enumerate 0 (take 20 ranked))"
  have keys: "\<forall>u\<in>set active. averageScore u = Num (k u)"
    using assms unfolding active_def [symmetric] k_def
    by (auto simp: list_all_iff finite_num_def split: jsnum.splits)
  have perm: "mset ranked = mset active"
    unfolding ranked_def by (rule mset_js_sort)
  then have same: "set ranked = set active"
    by (metis set_mset_mset)
  have scores: "map averageScore ranked = map Num (map k ranked)"
    using keys same by simp
  have sorted: "sorted_wrt (\<lambda>x y. y \<le> x) (map k ranked)"
    unfolding ranked_def sorted_wrt_map by (rule sorted_js_sort [OF keys])
  have board: "get_leaderboard s = Json200 rows"
    unfolding get_leaderboard_def rows_def ranked_def active_def
    by (simp add: js_slice_first)
  have "length ranked = length active"
    using arg_cong [OF perm, of size] by simp
  then have len: "length rows = min 20 (length active)"
    by (simp add: rows_def min.commute)
  have ranks: "map rank rows = [1..<Suc (length rows)]"
    unfolding rows_def using ranks_enumerate [of "take 20 ranked"] by (simp del: upt_Suc)
  have "map averageScore (take 20 ranked) = take 20 (map averageScore ranked)"
    by (simp add: take_map)
  also have "\<dots> = map Num (take 20 (map k ranked))"
    unfolding scores by (simp add: take_map)
  finally have top: "map score_row rows = map Num (take 20 (map k ranked))"
    unfolding rows_def rows_enumerate .
  have fields: "map name_row rows = map name (take 20 ranked)"
    "map email_row rows = map email (take 20 ranked)"
    "map tests_row rows = map totalTests (take 20 ranked)"
    "map bestScore_row rows = map bestScore (take 20 ranked)"
    "map lastActive rows = map lastLogin (take 20 ranked)"
    unfolding rows_def by (rule rows_enumerate)+
  have rows: "rows = map leaderboard_of (enumerate 0 (take 20 ranked))"
    by (rule rows_def)
  show ?thesis
    unfolding active_def [symmetric]
    by (intro exI [of _ ranked] exI [of _ "map k ranked"] exI [of _ rows] conjI;
        fact board perm scores sorted rows len ranks top fields)
qed

text \<open>
  Of the three sample users, the one without a test is left out, and the average 90
  ranks before the average 70.
\<close>

theorem leaderboard_ranked_witness:
  "\<exists>rows. get_leaderboard three_users = Json200 rows
     \<and> map rank rows = [1, 2]
     \<and> map name_row rows = [''b'', ''a'']
     \<and> map score_row rows = [Num 90, Num 70]"
proof -
  have active: "list_all (\<lambda>u. finite_num (averageScore u))
                  (filter (\<lambda>u. 0 < totalTests u) (users three_users))"
    by (simp add: three_users_eq finite_num_def)
  from leaderboard_ranked [OF this] obtain rows where
    rows: "get_leaderboard three_users = Json200 rows"
    and len: "length rows = min 20 (length (filter (\<lambda>u. 0 < totalTests u) (users three_users)))"
    and ranks: "map rank rows = [1..<Suc (length rows)]"
    by blast
  have "length rows = 2"
    using len by (simp add: three_users_eq)
  then have "map rank rows = [1, 2]"
    using ranks by (simp add: upt_rec)
  moreover have "get_leaderboard three_users
      = Json200 [\<lparr>rank = 1, name_row = ''b'', email_row = ''b@example.org'', score_row = Num 90,
                   tests_row = 1, bestScore_row = Num 90, lastActive = 2\<rparr>,
                 \<lparr>rank = 2, name_row = ''a'', email_row = ''a@example.org'', score_row = Num 70,
                   tests_row = 1, bestScore_row = Num 70, lastActive = 1\<rparr>]"
    by (simp add: get_leaderboard_def three_users_eq js_sort_def js_sub_def js_gt_def js_slice_def
          leaderboard_of_def)
  then have "rows = [\<lparr>rank = 1, name_row = ''b'', email_row = ''b@example.org'', score_row = Num 90,
                   tests_row = 1, bestScore_row = Num 90, lastActive = 2\<rparr>,
                 \<lparr>rank = 2, name_row = ''a'', email_row = ''a@example.org'', score_row = Num 70,
                   tests_row = 1, bestScore_row = Num 70, lastActive = 1\<rparr>]"
    unfolding rows by (simp only: response.inject)
  then have "map name_row rows = [''b'', ''a''] \<and> map score_row rows = [Num 90, Num 70]"
    by simp
  ultimately show ?thesis
    using rows by simp
qed

text \<open>
  When the second of three users has the average \<open>NaN\<close> (the accepted score
  \<^verbatim>\<open>"abc"\<close>), every comparison with that user is \<open>NaN\<close> and the rows come out in the
  order of sign-in: the average 70 ranks before the average 90.
\<close>

theorem leaderboard_with_nan_average:
  "map (\<lambda>u. (name u, totalTests u, averageScore u)) (users three_users_nan)
     = [(''a'', 1, Num 70), (''b'', 1, NaN), (''c'', 1, Num 90)]
   \<and> get_leaderboard three_users_nan
     = Json200 [\<lparr>rank = 1, name_row = ''a'', email_row = ''a@example.org'', score_row = Num 70,
                  tests_row = 1, bestScore_row = Num 70, lastActive = 1\<rparr>,
                \<lparr>rank = 2, name_row = ''b'', email_row = ''b@example.org'', score_row = NaN,
                  tests_row = 1, bestScore_row = NaN, lastActive = 2\<rparr>,
                \<lparr>rank = 3, name_row = ''c'', email_row = ''c@example.org'', score_row = Num 90,
                  tests_row = 1, bestScore_row = Num 90, lastActive = 3\<rparr>]"
proof -
  have "parseInt_string ''abc'' = NaN"
    by (simp add: parseInt_string_def is_whitespace_def is_digit_def digit_of_def)
  then have users: "users three_users_nan =
     [\<lparr>id_user = ''1'', googleId = ''g-a'', email = ''a@example.org'', name = ''a'',
       avatar = ''https://example.org/a'', role = ''student'', mockTests = [sample_test 70 4],
       totalTests = 1, averageScore = Num 70, bestScore = Num 70, joinedDate = 1, lastLogin = 1\<rparr>,
      \<lparr>id_user = ''2'', googleId = ''g-b'', email = ''b@example.org'', name = ''b'',
       avatar = ''https://example.org/b'', role = ''student'',
       mockTests = [newTest_of (json_body [(''testName'', JString ''Mock''), (''score'', JString ''abc'')]) 5],
       totalTests = 1, averageScore = NaN, bestScore = NaN, joinedDate = 2, lastLogin = 2\<rparr>,
      \<lparr>id_user = ''3'', googleId = ''g-c'', email = ''c@example.org'', name = ''c'',
       avatar = ''https://example.org/c'', role = ''student'', mockTests = [sample_test 90 6],
       totalTests = 1, averageScore = Num 90, bestScore = Num 90, joinedDate = 3, lastLogin = 3\<rparr>]"
    by (simp add: three_users_nan_def google_strategy_def profile_of_def claims_of_def int_toString_def
        digits_of_nat.simps post_mock_test_def record_test_def sample_test_def sample_body_def
        newTest_of_def parseInt_number_def json_body_def Let_def)
  show ?thesis
    unfolding get_leaderboard_def users
    by (simp add: js_sort_def js_sub_def js_gt_def js_slice_def leaderboard_of_def)
qed

end
